theory Spec2Isabelle
  imports Main
begin

section \<open>Python values as json.load builds them\<close>

text \<open>
  The converter of \<^verbatim>\<open>.github/scripts/xccov_to_lcov.py\<close> works on whatever
  \<^verbatim>\<open>json.load\<close> returns: \<^verbatim>\<open>None\<close>, booleans, integers, floats, strings, lists
  and dictionaries. A dictionary is kept as an association list in insertion order
  (its keys are distinct, as in a Python \<^verbatim>\<open>dict\<close>). Floats are carried but
  never inspected: the type \<open>pyfloat\<close> is left abstract, and every operation of the
  converter that would look at a float leaves the model (\<open>Outside_Model\<close>).
  A string is the list of its characters; the encoding of the two files is not
  modelled, so that a string is written as it was read.
\<close>

typedecl pyfloat

datatype json =
    JNull
  | JBool bool
  | JInt int
  | JFloat pyfloat
  | JStr string
  | JArr "json list"
  | JObj "(string \<times> json) list"

datatype error =
    OSError
  | JSONDecodeError
  | AttributeError
  | TypeError
  | KeyError string

text \<open>
  A Python expression returns a value or raises. \<open>Outside_Model\<close> marks the two
  places where Python goes on and this model does not follow: the text of a float, and
  the text of a list or dictionary, inside an f-string.
\<close>

datatype 'a outcome = Returned 'a | Raised error | Outside_Model

fun and_then :: "'a outcome \<Rightarrow> ('a \<Rightarrow> 'b outcome) \<Rightarrow> 'b outcome" where
  "and_then (Returned x) f = f x"
| "and_then (Raised e) f = Raised e"
| "and_then Outside_Model f = Outside_Model"

section \<open>The output stream\<close>

text \<open>
  The open output file is the string of the characters written so far. A statement
  runs on it and leaves it longer, also when it raises: what was written stays.
\<close>

type_synonym sink = string

type_synonym 'a io = "sink \<Rightarrow> 'a outcome \<times> sink"

definition io_return :: "'a \<Rightarrow> 'a io" where
  "io_return x = (\<lambda>out. (Returned x, out))"

definition io_lift :: "'a outcome \<Rightarrow> 'a io" where
  "io_lift r = (\<lambda>out. (r, out))"

definition io_bind :: "'a io \<Rightarrow> ('a \<Rightarrow> 'b io) \<Rightarrow> 'b io" where
  "io_bind m f = (\<lambda>out. case m out of
       (Returned x, out') \<Rightarrow> f x out'
     | (Raised e, out') \<Rightarrow> (Raised e, out')
     | (Outside_Model, out') \<Rightarrow> (Outside_Model, out'))"

definition out_write :: "string \<Rightarrow> unit io" where
  "out_write s = (\<lambda>out. (Returned (), out @ s))"

section \<open>The Python operations the converter uses\<close>

definition newline :: char where
  "newline = CHR 0x0A"

text \<open>\<^verbatim>\<open>d.get(k, default)\<close>: only a dictionary has the method.\<close>

fun py_get :: "json \<Rightarrow> string \<Rightarrow> json \<Rightarrow> json outcome" where
  "py_get (JObj kvs) k dflt = Returned (case map_of kvs k of None \<Rightarrow> dflt | Some v \<Rightarrow> v)"
| "py_get _ k dflt = Raised AttributeError"

text \<open>\<^verbatim>\<open>d[k]\<close> with a string key: a missing key of a dictionary is a KeyError that
  carries the key; every other value refuses a string subscript.\<close>

fun py_subscript :: "json \<Rightarrow> string \<Rightarrow> json outcome" where
  "py_subscript (JObj kvs) k = (case map_of kvs k of None \<Rightarrow> Raised (KeyError k) | Some v \<Rightarrow> Returned v)"
| "py_subscript _ k = Raised TypeError"

text \<open>\<^verbatim>\<open>for x in v\<close>: a list gives its elements, a dictionary its keys, a string its
  characters; nothing else is iterable.\<close>

fun py_iter :: "json \<Rightarrow> json list outcome" where
  "py_iter (JArr xs) = Returned xs"
| "py_iter (JObj kvs) = Returned (map (\<lambda>kv. JStr (fst kv)) kvs)"
| "py_iter (JStr s) = Returned (map (\<lambda>c. JStr [c]) s)"
| "py_iter _ = Raised TypeError"

fun py_len :: "json \<Rightarrow> nat outcome" where
  "py_len (JArr xs) = Returned (length xs)"
| "py_len (JObj kvs) = Returned (length kvs)"
| "py_len (JStr s) = Returned (length s)"
| "py_len _ = Raised TypeError"

text \<open>\<^verbatim>\<open>v > 0\<close>: integers compare, booleans are the integers 0 and 1.\<close>

fun py_gt0 :: "json \<Rightarrow> bool outcome" where
  "py_gt0 (JInt i) = Returned (0 < i)"
| "py_gt0 (JBool b) = Returned b"
| "py_gt0 (JFloat x) = Outside_Model"
| "py_gt0 _ = Raised TypeError"

text \<open>Decimal text of an integer, as \<^verbatim>\<open>str\<close> gives it.\<close>

definition digit :: "nat \<Rightarrow> char" where
  "digit d = ''0123456789'' ! d"

fun dec_nat :: "nat \<Rightarrow> string" where
  "dec_nat n = (if n < 10 then [digit n] else dec_nat (n div 10) @ [digit (n mod 10)])"

definition dec_int :: "int \<Rightarrow> string" where
  "dec_int i = (if i < 0 then CHR ''-'' # dec_nat (nat (- i)) else dec_nat (nat i))"

text \<open>\<^verbatim>\<open>str(v)\<close>, which an f-string applies to each \<^verbatim>\<open>{v}\<close>.\<close>

fun py_str :: "json \<Rightarrow> string outcome" where
  "py_str (JStr s) = Returned s"
| "py_str (JInt i) = Returned (dec_int i)"
| "py_str (JBool b) = Returned (if b then ''True'' else ''False'')"
| "py_str JNull = Returned ''None''"
| "py_str _ = Outside_Model"

text \<open>An f-string is a sequence of literal pieces and of values to format.\<close>

datatype part = Lit string | Val json

fun fstring :: "part list \<Rightarrow> string outcome" where
  "fstring [] = Returned []"
| "fstring (Lit s # ps) = and_then (fstring ps) (\<lambda>r. Returned (s @ r))"
| "fstring (Val v # ps) = and_then (py_str v) (\<lambda>s. and_then (fstring ps) (\<lambda>r. Returned (s @ r)))"

text \<open>The body of a \<^verbatim>\<open>for\<close> loop, run on each element in turn; the first
  exception ends the loop.\<close>

fun for_each :: "('a \<Rightarrow> unit io) \<Rightarrow> 'a list \<Rightarrow> unit io" where
  "for_each body [] = io_return ()"
| "for_each body (x # xs) = io_bind (body x) (\<lambda>_. for_each body xs)"

definition py_for :: "json outcome \<Rightarrow> (json \<Rightarrow> unit io) \<Rightarrow> unit io" where
  "py_for e body = io_bind (io_lift (and_then e py_iter)) (for_each body)"

section \<open>The converter\<close>

text \<open>Lines 26 to 30: one function entry gives its \<^verbatim>\<open>FN:\<close> and \<^verbatim>\<open>FNDA:\<close> lines.\<close>

definition write_fn :: "json \<Rightarrow> unit io" where
  "write_fn func =
     io_bind (io_lift (py_subscript func ''name'')) (\<lambda>name.
     io_bind (io_lift (py_subscript func ''lineNumber'')) (\<lambda>line.
     io_bind (io_lift (py_subscript func ''executionCount'')) (\<lambda>count.
     io_bind (io_bind (io_lift (fstring [Lit ''FN:'', Val line, Lit '','', Val name, Lit [newline]])) out_write) (\<lambda>_.
     io_bind (io_lift (fstring [Lit ''FNDA:'', Val count, Lit '','', Val name, Lit [newline]])) out_write))))"

text \<open>Line 34: \<^verbatim>\<open>sum(1 for f in ... if f['executionCount'] > 0)\<close>.\<close>

fun covered_functions :: "json list \<Rightarrow> nat outcome" where
  "covered_functions [] = Returned 0"
| "covered_functions (f # fs) =
     and_then (py_subscript f ''executionCount'') (\<lambda>c.
     and_then (py_gt0 c) (\<lambda>hit.
     and_then (covered_functions fs) (\<lambda>n.
     Returned (if hit then 1 + n else n))))"

text \<open>Lines 40 to 42: one function entry gives one \<^verbatim>\<open>DA:\<close> line.\<close>

definition write_da :: "json \<Rightarrow> unit io" where
  "write_da func =
     io_bind (io_lift (py_subscript func ''lineNumber'')) (\<lambda>line.
     io_bind (io_lift (py_subscript func ''executionCount'')) (\<lambda>count.
     io_bind (io_lift (fstring [Lit ''DA:'', Val line, Lit '','', Val count, Lit [newline]])) out_write))"

text \<open>Lines 20 to 48: the record of one entry of \<^verbatim>\<open>files\<close>.\<close>

definition write_file :: "json \<Rightarrow> unit io" where
  "write_file file_data =
     io_bind (io_lift (py_subscript file_data ''path'')) (\<lambda>path.
     io_bind (out_write (''TN:'' @ [newline])) (\<lambda>_.
     io_bind (io_bind (io_lift (fstring [Lit ''SF:'', Val path, Lit [newline]])) out_write) (\<lambda>_.
     io_bind (py_for (py_get file_data ''functions'' (JArr [])) write_fn) (\<lambda>_.
     io_bind (io_lift (and_then (py_get file_data ''functions'' (JArr [])) py_len)) (\<lambda>total_functions.
     io_bind (io_lift (and_then (and_then (py_get file_data ''functions'' (JArr [])) py_iter) covered_functions)) (\<lambda>covered.
     io_bind (io_bind (io_lift (fstring [Lit ''FNF:'', Val (JInt (int total_functions)), Lit [newline]])) out_write) (\<lambda>_.
     io_bind (io_bind (io_lift (fstring [Lit ''FNH:'', Val (JInt (int covered)), Lit [newline]])) out_write) (\<lambda>_.
     io_bind (py_for (py_get file_data ''functions'' (JArr [])) write_da) (\<lambda>_.
     io_bind (io_bind (io_lift (and_then (py_subscript file_data ''executableLines'') (\<lambda>v. fstring [Lit ''LF:'', Val v, Lit [newline]]))) out_write) (\<lambda>_.
     io_bind (io_bind (io_lift (and_then (py_subscript file_data ''coveredLines'') (\<lambda>v. fstring [Lit ''LH:'', Val v, Lit [newline]]))) out_write) (\<lambda>_.
     out_write (''end_of_record'' @ [newline]))))))))))))"

text \<open>Line 19: the files of one target.\<close>

definition write_target :: "json \<Rightarrow> unit io" where
  "write_target target = py_for (py_get target ''files'' (JArr [])) write_file"

text \<open>Lines 18 to 48: everything written between opening and closing the output.\<close>

definition write_report :: "json \<Rightarrow> unit io" where
  "write_report data = py_for (py_get data ''targets'' (JArr [])) write_target"

subsection \<open>Files\<close>

text \<open>
  The file system holds the text of each existing, readable file, and says at which
  paths a file can be opened for writing. \<^verbatim>\<open>json.load\<close> is library code: it is a
  parameter, giving \<open>None\<close> for a text that is not JSON.
\<close>

record filesystem =
  contents :: "string \<Rightarrow> string option"
  can_write :: "string \<Rightarrow> bool"

text \<open>Lines 12 to 48. Opening the output for writing empties it; leaving the
  \<^verbatim>\<open>with\<close> block, by its end or by an exception, closes it with what was written.\<close>

definition convert_xccov_to_lcov ::
    "(string \<Rightarrow> json option) \<Rightarrow> filesystem \<Rightarrow> string \<Rightarrow> string \<Rightarrow> unit outcome \<times> filesystem" where
  "convert_xccov_to_lcov json_load fs json_path lcov_path =
     (case contents fs json_path of
        None \<Rightarrow> (Raised OSError, fs)
      | Some text \<Rightarrow>
          (case json_load text of
             None \<Rightarrow> (Raised JSONDecodeError, fs)
           | Some data \<Rightarrow>
               if can_write fs lcov_path
               then (case write_report data [] of
                       (r, out) \<Rightarrow> (r, fs\<lparr>contents := (contents fs)(lcov_path := Some out)\<rparr>))
               else (Raised OSError, fs)))"

section \<open>The data model of the specification\<close>

text \<open>
  Section 3 of the specification: a Coverage Report is a sequence of Targets, a Target
  a sequence of File Coverages, a File Coverage has a \<^verbatim>\<open>path\<close> (a string),
  \<^verbatim>\<open>executableLines\<close> and \<^verbatim>\<open>coveredLines\<close> (integers) and a sequence of
  Function Coverages, each with a \<^verbatim>\<open>name\<close> (a string), a \<^verbatim>\<open>lineNumber\<close> and an
  \<^verbatim>\<open>executionCount\<close> (integers). The predicates below say when a value read from
  JSON is such an entity, and the accessors read its attributes. Other keys may be
  present, and a missing \<^verbatim>\<open>functions\<close>, \<^verbatim>\<open>files\<close> or \<^verbatim>\<open>targets\<close> list counts as
  empty, as the converter reads them with \<^verbatim>\<open>.get(key, [])\<close>. No bound is put on the
  integers.

  The record of a File Coverage, \<open>record_lines\<close>, is laid out as section 6 of the
  specification gives it; \<open>unlines\<close> ends each line with a newline.
\<close>

fun item :: "json \<Rightarrow> string \<Rightarrow> json option" where
  "item (JObj kvs) k = map_of kvs k"
| "item _ k = None"

fun is_dict :: "json \<Rightarrow> bool" where
  "is_dict (JObj kvs) = True"
| "is_dict _ = False"

definition has_str :: "json \<Rightarrow> string \<Rightarrow> bool" where
  "has_str j k = (case item j k of Some (JStr s) \<Rightarrow> True | _ \<Rightarrow> False)"

definition has_int :: "json \<Rightarrow> string \<Rightarrow> bool" where
  "has_int j k = (case item j k of Some (JInt i) \<Rightarrow> True | _ \<Rightarrow> False)"

definition has_list :: "json \<Rightarrow> string \<Rightarrow> bool" where
  "has_list j k = (is_dict j \<and> (case item j k of None \<Rightarrow> True | Some (JArr xs) \<Rightarrow> True | _ \<Rightarrow> False))"

definition str_at :: "json \<Rightarrow> string \<Rightarrow> string" where
  "str_at j k = (case item j k of Some (JStr s) \<Rightarrow> s | _ \<Rightarrow> [])"

definition int_at :: "json \<Rightarrow> string \<Rightarrow> int" where
  "int_at j k = (case item j k of Some (JInt i) \<Rightarrow> i | _ \<Rightarrow> 0)"

definition list_at :: "json \<Rightarrow> string \<Rightarrow> json list" where
  "list_at j k = (case item j k of Some (JArr xs) \<Rightarrow> xs | _ \<Rightarrow> [])"

definition fn_name :: "json \<Rightarrow> string" where "fn_name f = str_at f ''name''"
definition fn_line :: "json \<Rightarrow> int" where "fn_line f = int_at f ''lineNumber''"
definition fn_count :: "json \<Rightarrow> int" where "fn_count f = int_at f ''executionCount''"

definition is_function_coverage :: "json \<Rightarrow> bool" where
  "is_function_coverage f = (has_str f ''name'' \<and> has_int f ''lineNumber'' \<and> has_int f ''executionCount'')"

definition file_path :: "json \<Rightarrow> string" where "file_path fd = str_at fd ''path''"
definition file_executable :: "json \<Rightarrow> int" where "file_executable fd = int_at fd ''executableLines''"
definition file_covered :: "json \<Rightarrow> int" where "file_covered fd = int_at fd ''coveredLines''"
definition file_functions :: "json \<Rightarrow> json list" where "file_functions fd = list_at fd ''functions''"

definition is_file_coverage :: "json \<Rightarrow> bool" where
  "is_file_coverage fd = (has_str fd ''path'' \<and> has_int fd ''executableLines'' \<and> has_int fd ''coveredLines''
     \<and> has_list fd ''functions'' \<and> list_all is_function_coverage (file_functions fd))"

definition target_files :: "json \<Rightarrow> json list" where "target_files t = list_at t ''files''"

definition is_target :: "json \<Rightarrow> bool" where
  "is_target t = (has_list t ''files'' \<and> list_all is_file_coverage (target_files t))"

definition report_targets :: "json \<Rightarrow> json list" where "report_targets d = list_at d ''targets''"

definition is_report :: "json \<Rightarrow> bool" where
  "is_report d = (has_list d ''targets'' \<and> list_all is_target (report_targets d))"

definition report_files :: "json \<Rightarrow> json list" where
  "report_files d = concat (map target_files (report_targets d))"

definition unlines :: "string list \<Rightarrow> string" where
  "unlines ls = concat (map (\<lambda>l. l @ [newline]) ls)"

definition fn_line_text :: "json \<Rightarrow> string" where
  "fn_line_text f = ''FN:'' @ dec_int (fn_line f) @ '','' @ fn_name f"
definition fnda_line_text :: "json \<Rightarrow> string" where
  "fnda_line_text f = ''FNDA:'' @ dec_int (fn_count f) @ '','' @ fn_name f"
definition da_line_text :: "json \<Rightarrow> string" where
  "da_line_text f = ''DA:'' @ dec_int (fn_line f) @ '','' @ dec_int (fn_count f)"

definition hit_functions :: "json list \<Rightarrow> json list" where
  "hit_functions fs = filter (\<lambda>f. 0 < fn_count f) fs"

definition record_lines :: "json \<Rightarrow> string list" where
  "record_lines fd =
     [''TN:'', ''SF:'' @ file_path fd]
     @ concat (map (\<lambda>f. [fn_line_text f, fnda_line_text f]) (file_functions fd))
     @ [''FNF:'' @ dec_int (int (length (file_functions fd))),
        ''FNH:'' @ dec_int (int (length (hit_functions (file_functions fd))))]
     @ map da_line_text (file_functions fd)
     @ [''LF:'' @ dec_int (file_executable fd), ''LH:'' @ dec_int (file_covered fd), ''end_of_record'']"

text \<open>The lines of a record before its line summary.\<close>

definition function_section :: "json \<Rightarrow> string list" where
  "function_section fd =
     [''TN:'', ''SF:'' @ file_path fd]
     @ concat (map (\<lambda>f. [fn_line_text f, fnda_line_text f]) (file_functions fd))
     @ [''FNF:'' @ dec_int (int (length (file_functions fd))),
        ''FNH:'' @ dec_int (int (length (hit_functions (file_functions fd))))]
     @ map da_line_text (file_functions fd)"

section \<open>Lines of the output\<close>

text \<open>
  The text of a file is cut into lines at each newline. \<open>single_line\<close> holds of a
  string without a newline, \<open>starts_with\<close> tests a prefix.
\<close>

fun split_lines :: "string \<Rightarrow> string \<Rightarrow> string list" where
  "split_lines cur [] = (if cur = [] then [] else [cur])"
| "split_lines cur (c # cs) = (if c = newline then cur # split_lines [] cs else split_lines (cur @ [c]) cs)"

definition lines_of :: "string \<Rightarrow> string list" where
  "lines_of s = split_lines [] s"

definition single_line :: "string \<Rightarrow> bool" where
  "single_line s = (newline \<notin> set s)"

definition starts_with :: "string \<Rightarrow> string \<Rightarrow> bool" where
  "starts_with p s = (take (length p) s = p)"

text \<open>A File Coverage whose path and function names are each a single line.\<close>

definition one_line_names :: "json \<Rightarrow> bool" where
  "one_line_names fd =
     (single_line (file_path fd) \<and> list_all (\<lambda>f. single_line (fn_name f)) (file_functions fd))"

section \<open>Reading decimal text back\<close>

definition digit_value :: "char \<Rightarrow> nat" where
  "digit_value c = of_char c - 48"

definition nat_of_dec :: "string \<Rightarrow> nat" where
  "nat_of_dec s = foldl (\<lambda>a c. 10 * a + digit_value c) 0 s"

section \<open>Entries with absent fields\<close>











definition first_absent :: "string list \<Rightarrow> unit outcome" where
  "first_absent ks = (case ks of [] \<Rightarrow> Returned () | k # _ \<Rightarrow> Raised (KeyError k))"

section \<open>Sample reports and file systems\<close>

text \<open>
  The report of the scenario in section 8 of the specification, with its JSON text,
  and further reports on which the theorems below are instantiated.
\<close>

definition scenario_report :: json where
  "scenario_report = JObj [(''targets'', JArr [JObj [(''files'', JArr [JObj [
      (''path'', JStr ''A.swift''), (''executableLines'', JInt 10), (''coveredLines'', JInt 7),
      (''functions'', JArr [
         JObj [(''name'', JStr ''f()''), (''lineNumber'', JInt 3), (''executionCount'', JInt 2)],
         JObj [(''name'', JStr ''g()''), (''lineNumber'', JInt 8), (''executionCount'', JInt 0)]])]])]])]"

definition scenario_text :: string where
  "scenario_text = ''{\"targets\":[{\"files\":[{\"path\":\"A.swift\",\"executableLines\":10,\"coveredLines\":7,\"functions\":[{\"name\":\"f()\",\"lineNumber\":3,\"executionCount\":2},{\"name\":\"g()\",\"lineNumber\":8,\"executionCount\":0}]}]}]}''"

definition sample_file :: json where
  "sample_file = JObj [
      (''name'', JStr ''App.swift''),
      (''path'', JStr ''Sources/App.swift''),
      (''executableLines'', JInt 10),
      (''coveredLines'', JInt 6),
      (''functions'', JArr [
         JObj [(''name'', JStr ''init()''), (''lineNumber'', JInt 4), (''executionCount'', JInt 3)],
         JObj [(''name'', JStr ''body.getter''), (''lineNumber'', JInt 9), (''executionCount'', JInt 0)]])]"

definition overcovered_file :: json where
  "overcovered_file = JObj [
      (''path'', JStr ''Sources/Odd.swift''),
      (''executableLines'', JInt 10),
      (''coveredLines'', JInt 12),
      (''functions'', JArr [
         JObj [(''name'', JStr ''run()''), (''lineNumber'', JInt 2), (''executionCount'', JInt 0)]])]"

definition empty_file :: json where
  "empty_file = JObj [
      (''path'', JStr ''Sources/Empty.swift''),
      (''executableLines'', JInt 5),
      (''coveredLines'', JInt 0),
      (''functions'', JArr [])]"

definition sample_report :: json where
  "sample_report = JObj [(''targets'', JArr [
      JObj [(''name'', JStr ''App''), (''files'', JArr [sample_file, empty_file])],
      JObj [(''name'', JStr ''Kit''), (''files'', JArr [overcovered_file])]])]"

definition incomplete_report :: json where
  "incomplete_report = JObj [(''targets'', JArr [JObj [(''files'', JArr [
      empty_file,
      JObj [(''path'', JStr ''Sources/B.swift''),
            (''executableLines'', JInt 4),
            (''functions'', JArr [
               JObj [(''name'', JStr ''f()''), (''lineNumber'', JInt 1), (''executionCount'', JInt 1)],
               JObj [(''name'', JStr ''g()''), (''executionCount'', JInt 0)]])]])]])]"

definition incomplete_text :: string where
  "incomplete_text = ''{\"targets\":[{\"files\":[{\"path\":\"Sources/Empty.swift\",\"executableLines\":5,\"coveredLines\":0,\"functions\":[]},{\"path\":\"Sources/B.swift\",\"executableLines\":4,\"functions\":[{\"name\":\"f()\",\"lineNumber\":1,\"executionCount\":1},{\"name\":\"g()\",\"executionCount\":0}]}]}]}''"

text \<open>Reports in which a path or a function name contains a newline.\<close>

definition injected_name_file :: json where
  "injected_name_file = JObj [
      (''path'', JStr ''A.swift''),
      (''executableLines'', JInt 10),
      (''coveredLines'', JInt 7),
      (''functions'', JArr [
         JObj [(''name'', JStr ''f()\<newline>FN:9,g()''), (''lineNumber'', JInt 3), (''executionCount'', JInt 2)]])]"

definition injected_da_file :: json where
  "injected_da_file = JObj [
      (''path'', JStr ''A.swift\<newline>DA:1,1''),
      (''executableLines'', JInt 10),
      (''coveredLines'', JInt 7),
      (''functions'', JArr [
         JObj [(''name'', JStr ''f()''), (''lineNumber'', JInt 3), (''executionCount'', JInt 2)]])]"

definition injected_fn_file :: json where
  "injected_fn_file = JObj [
      (''path'', JStr ''A.swift\<newline>FN:1,f()''),
      (''executableLines'', JInt 10),
      (''coveredLines'', JInt 7),
      (''functions'', JArr [])]"

definition injected_report :: json where
  "injected_report = JObj [(''targets'', JArr [JObj [(''files'', JArr [JObj [
      (''path'', JStr ''A.swift\<newline>end_of_record''),
      (''executableLines'', JInt 10),
      (''coveredLines'', JInt 7),
      (''functions'', JArr [])]])]])]"

text \<open>A parser that knows the sample texts, and file systems holding them.\<close>

definition sample_load :: "string \<Rightarrow> json option" where
  "sample_load src =
     (if src = scenario_text then Some scenario_report
      else if src = incomplete_text then Some incomplete_report
      else None)"

definition scenario_fs :: filesystem where
  "scenario_fs = \<lparr>contents = [''coverage.json'' \<mapsto> scenario_text], can_write = (\<lambda>p. True)\<rparr>"


definition garbled_fs :: filesystem where
  "garbled_fs = \<lparr>contents = [''coverage.json'' \<mapsto> ''{targets:'', ''coverage.lcov'' \<mapsto> ''stale''],
       can_write = (\<lambda>p. True)\<rparr>"


section \<open>Unfolding the definitions on a concrete report\<close>

lemmas shape_defs =
  is_file_coverage_def is_function_coverage_def
  has_str_def has_int_def has_list_def
  file_functions_def file_path_def file_executable_def file_covered_def
  fn_name_def fn_line_def fn_count_def str_at_def int_at_def list_at_def

lemmas report_defs =
  report_files_def report_targets_def target_files_def

lemmas run_defs =
  write_report_def write_target_def write_file_def write_fn_def write_da_def py_for_def
  io_bind_def io_lift_def io_return_def out_write_def dec_int_def digit_def

section \<open>What the converter writes for a well-formed report\<close>

lemma subscript_str: "has_str j k \<Longrightarrow> py_subscript j k = Returned (JStr (str_at j k))"
  by (cases j) (auto simp: has_str_def str_at_def split: option.splits json.splits)

lemma subscript_int: "has_int j k \<Longrightarrow> py_subscript j k = Returned (JInt (int_at j k))"
  by (cases j) (auto simp: has_int_def int_at_def split: option.splits json.splits)

lemma get_list: "has_list j k \<Longrightarrow> py_get j k (JArr []) = Returned (JArr (list_at j k))"
  by (cases j) (auto simp: has_list_def list_at_def split: option.splits json.splits)

lemma io_bind_lift_Returned: "io_bind (io_lift (Returned x)) f out = f x out"
  by (simp add: io_bind_def io_lift_def)

lemma io_bind_write: "io_bind (out_write s) f out = f () (out @ s)"
  by (simp add: io_bind_def out_write_def)

lemma out_write_apply: "out_write s out = (Returned (), out @ s)"
  by (simp add: out_write_def)

lemma io_bind_assoc: "io_bind (io_bind m f) g = io_bind m (\<lambda>x. io_bind (f x) g)"
  by (auto simp: io_bind_def fun_eq_iff split: prod.splits outcome.splits)

lemma io_bind_Returned: "m out = (Returned x, out') \<Longrightarrow> io_bind m f out = f x out'"
  by (simp add: io_bind_def)

lemma write_fn_text:
  assumes "is_function_coverage f"
  shows "write_fn f out = (Returned (), out @ unlines [fn_line_text f, fnda_line_text f])"
  using assms
  by (simp add: is_function_coverage_def write_fn_def subscript_str subscript_int
        io_bind_assoc io_bind_lift_Returned io_bind_write out_write_apply
        unlines_def fn_line_text_def fnda_line_text_def fn_name_def fn_line_def fn_count_def)

lemma write_da_text:
  assumes "is_function_coverage f"
  shows "write_da f out = (Returned (), out @ unlines [da_line_text f])"
  using assms
  by (simp add: is_function_coverage_def write_da_def subscript_str subscript_int
        io_bind_assoc io_bind_lift_Returned io_bind_write out_write_apply
        unlines_def da_line_text_def fn_line_def fn_count_def)

lemma unlines_append: "unlines (xs @ ys) = unlines xs @ unlines ys"
  by (simp add: unlines_def)

lemma unlines_Nil: "unlines [] = []"
  by (simp add: unlines_def)

lemma unlines_Cons: "unlines (x # xs) = x @ newline # unlines xs"
  by (simp add: unlines_def)

lemma for_each_text:
  assumes "\<And>x out. x \<in> set xs \<Longrightarrow> body x out = (Returned (), out @ unlines (ls x))"
  shows "for_each body xs out = (Returned (), out @ unlines (concat (map ls xs)))"
  using assms
proof (induction xs arbitrary: out)
  case Nil
  then show ?case by (simp add: io_return_def unlines_def)
next
  case (Cons x xs)
  have step: "body x out = (Returned (), out @ unlines (ls x))"
    by (rule Cons.prems) simp
  have "for_each body (x # xs) out = for_each body xs (out @ unlines (ls x))"
    by (simp add: io_bind_def step)
  also have "\<dots> = (Returned (), (out @ unlines (ls x)) @ unlines (concat (map ls xs)))"
    by (rule Cons.IH) (simp add: Cons.prems)
  finally show ?case by (simp add: unlines_append)
qed

lemma covered_functions_count:
  "list_all is_function_coverage fs \<Longrightarrow> covered_functions fs = Returned (length (hit_functions fs))"
  by (induction fs)
     (simp_all add: hit_functions_def is_function_coverage_def subscript_int fn_count_def)

lemma write_file_record:
  assumes "is_file_coverage fd"
  shows "write_file fd out = (Returned (), out @ unlines (record_lines fd))"
proof -
  let ?fs = "file_functions fd"
  from assms have fs: "list_all is_function_coverage ?fs"
    and g: "py_get fd ''functions'' (JArr []) = Returned (JArr ?fs)"
    and p: "py_subscript fd ''path'' = Returned (JStr (file_path fd))"
    and e: "py_subscript fd ''executableLines'' = Returned (JInt (file_executable fd))"
    and c: "py_subscript fd ''coveredLines'' = Returned (JInt (file_covered fd))"
    by (simp_all add: is_file_coverage_def get_list subscript_str subscript_int
          file_functions_def file_path_def file_executable_def file_covered_def)
  have fn: "for_each write_fn ?fs out' =
      (Returned (), out' @ unlines (concat (map (\<lambda>f. [fn_line_text f, fnda_line_text f]) ?fs)))" for out'
    using fs by (intro for_each_text write_fn_text) (simp add: list_all_iff)
  have da: "for_each write_da ?fs out' = (Returned (), out' @ unlines (map da_line_text ?fs))" for out'
    using for_each_text [of ?fs write_da "\<lambda>f. [da_line_text f]" out'] fs
    by (simp add: write_da_text list_all_iff)
  show ?thesis
    by (simp add: write_file_def g p e c py_for_def fn da covered_functions_count [OF fs]
          io_bind_assoc io_bind_lift_Returned io_bind_write io_bind_Returned [OF fn]
          io_bind_Returned [OF da] out_write_apply record_lines_def unlines_append unlines_Cons unlines_Nil)
qed

lemma write_target_text:
  assumes "is_target t"
  shows "write_target t out = (Returned (), out @ unlines (concat (map record_lines (target_files t))))"
proof -
  from assms have g: "py_get t ''files'' (JArr []) = Returned (JArr (target_files t))"
    and fs: "list_all is_file_coverage (target_files t)"
    by (simp_all add: is_target_def get_list target_files_def)
  have "for_each write_file (target_files t) out =
      (Returned (), out @ unlines (concat (map record_lines (target_files t))))"
    using fs by (intro for_each_text write_file_record) (simp add: list_all_iff)
  then show ?thesis
    by (simp add: write_target_def py_for_def g io_bind_lift_Returned)
qed

lemma concat_map_concat: "concat (map f (concat xss)) = concat (map (\<lambda>xs. concat (map f xs)) xss)"
  by (induction xss) simp_all

lemma write_report_text:
  assumes "is_report d"
  shows "write_report d out = (Returned (), out @ unlines (concat (map record_lines (report_files d))))"
proof -
  from assms have g: "py_get d ''targets'' (JArr []) = Returned (JArr (report_targets d))"
    and ts: "list_all is_target (report_targets d)"
    by (simp_all add: is_report_def get_list report_targets_def)
  have "for_each write_target (report_targets d) out =
      (Returned (), out @ unlines (concat (map (\<lambda>t. concat (map record_lines (target_files t))) (report_targets d))))"
    using ts by (intro for_each_text write_target_text) (simp add: list_all_iff)
  then show ?thesis
    by (simp add: write_report_def py_for_def g io_bind_lift_Returned report_files_def
          concat_map_concat comp_def)
qed

lemma split_lines_line:
  "newline \<notin> set l \<Longrightarrow> split_lines cur (l @ newline # rest) = (cur @ l) # split_lines [] rest"
  by (induction l arbitrary: cur) auto

lemma lines_of_unlines: "list_all single_line ls \<Longrightarrow> lines_of (unlines ls) = ls"
proof (induction ls)
  case Nil
  then show ?case by (simp add: lines_of_def unlines_Nil)
next
  case (Cons l ls)
  then have "newline \<notin> set l" and "lines_of (unlines ls) = ls"
    by (simp_all add: single_line_def)
  then show ?case
    using split_lines_line [of l "[]" "unlines ls"]
    by (simp add: lines_of_def unlines_Cons)
qed

lemma digit_range: "d < 10 \<Longrightarrow> digit d \<in> set ''0123456789''"
  unfolding digit_def by (rule nth_mem) simp

lemma dec_nat_digits: "set (dec_nat n) \<subseteq> set ''0123456789''"
proof (induction n rule: dec_nat.induct)
  case (1 n)
  show ?case
  proof (cases "n < 10")
    case True
    then show ?thesis using digit_range [of n] by (subst dec_nat.simps) simp
  next
    case False
    then show ?thesis
      using "1.IH" digit_range [of "n mod 10"] by (subst dec_nat.simps) simp
  qed
qed

lemma single_line_dec_nat: "single_line (dec_nat n)"
proof -
  have "newline \<notin> set ''0123456789''"
    by (simp add: newline_def)
  with dec_nat_digits [of n] show ?thesis
    unfolding single_line_def by blast
qed

lemma single_line_dec_int: "single_line (dec_int i)"
proof (cases "i < 0")
  case True
  have "newline \<noteq> CHR ''-''"
    by (simp add: newline_def)
  with True single_line_dec_nat [of "nat (- i)"] show ?thesis
    by (simp add: dec_int_def single_line_def)
next
  case False
  with single_line_dec_nat [of "nat i"] show ?thesis
    by (simp add: dec_int_def)
qed

lemma unlines_concat: "unlines (concat xss) = concat (map unlines xss)"
  by (induction xss) (simp_all add: unlines_Nil unlines_append)

lemma report_files_coverage: "is_report d \<Longrightarrow> list_all is_file_coverage (report_files d)"
  by (auto simp: is_report_def is_target_def report_files_def list_all_iff)

section \<open>Decimal text\<close>

text \<open>
  \<open>dec_int\<close> is one-to-one: the decimal text on a line determines the number written.
\<close>

lemma digit_value_digit: "d < 10 \<Longrightarrow> digit_value (digit d) = d"
proof -
  assume "d < 10"
  then have "d = 0 \<or> d = 1 \<or> d = 2 \<or> d = 3 \<or> d = 4 \<or> d = 5 \<or> d = 6 \<or> d = 7 \<or> d = 8 \<or> d = 9"
    by arith
  then show ?thesis
    by (elim disjE) (simp_all add: digit_def digit_value_def)
qed

lemma nat_of_dec_nat: "nat_of_dec (dec_nat n) = n"
proof (induction n rule: dec_nat.induct)
  case (1 n)
  show ?case
  proof (cases "n < 10")
    case True
    then show ?thesis
      by (subst dec_nat.simps) (simp add: nat_of_dec_def digit_value_digit)
  next
    case False
    with "1.IH" have "nat_of_dec (dec_nat (n div 10)) = n div 10"
      by simp
    with False show ?thesis
      by (subst dec_nat.simps) (simp add: nat_of_dec_def digit_value_digit)
  qed
qed

lemma dec_nat_inject: "dec_nat m = dec_nat n \<Longrightarrow> m = n"
proof -
  assume "dec_nat m = dec_nat n"
  then have "nat_of_dec (dec_nat m) = nat_of_dec (dec_nat n)"
    by (rule arg_cong)
  then show "m = n"
    by (simp only: nat_of_dec_nat)
qed

lemma dec_nat_no_sign: "dec_nat n \<noteq> CHR ''-'' # s"
proof
  assume "dec_nat n = CHR ''-'' # s"
  then have "CHR ''-'' \<in> set (dec_nat n)"
    by (simp only: list.set_intros)
  moreover have "CHR ''-'' \<notin> set ''0123456789''"
    by simp
  ultimately show False
    using dec_nat_digits [of n] by blast
qed

lemma dec_int_inject: "dec_int i = dec_int j \<Longrightarrow> i = j"
proof -
  assume eq: "dec_int i = dec_int j"
  show "i = j"
  proof (cases "i < 0")
    case i: True
    show ?thesis
    proof (cases "j < 0")
      case True
      with i eq have "dec_nat (nat (- i)) = dec_nat (nat (- j))"
        by (simp add: dec_int_def)
      then have "nat (- i) = nat (- j)"
        by (rule dec_nat_inject)
      with i True show ?thesis
        by arith
    next
      case False
      with i eq have "dec_nat (nat j) = CHR ''-'' # dec_nat (nat (- i))"
        by (simp add: dec_int_def)
      then show ?thesis
        by (simp only: dec_nat_no_sign)
    qed
  next
    case i: False
    show ?thesis
    proof (cases "j < 0")
      case True
      with i eq have "dec_nat (nat i) = CHR ''-'' # dec_nat (nat (- j))"
        by (simp add: dec_int_def)
      then show ?thesis
        by (simp only: dec_nat_no_sign)
    next
      case False
      with i eq have "dec_nat (nat i) = dec_nat (nat j)"
        by (simp add: dec_int_def)
      then have "nat i = nat j"
        by (rule dec_nat_inject)
      with i False show ?thesis
        by arith
    qed
  qed
qed

section \<open>The lines of a record\<close>

lemma single_line_append: "single_line (a @ b) = (single_line a \<and> single_line b)"
  by (auto simp: single_line_def)

lemma single_line_Cons: "single_line (c # s) = (c \<noteq> newline \<and> single_line s)"
  by (auto simp: single_line_def)

lemma single_line_Nil: "single_line []"
  by (simp add: single_line_def)

lemma newline_neq:
  "CHR ''T'' \<noteq> newline" "CHR ''N'' \<noteq> newline" "CHR '':'' \<noteq> newline" "CHR ''S'' \<noteq> newline"
  "CHR ''F'' \<noteq> newline" "CHR ''D'' \<noteq> newline" "CHR ''A'' \<noteq> newline" "CHR ''H'' \<noteq> newline"
  "CHR ''L'' \<noteq> newline" "CHR '','' \<noteq> newline" "CHR ''e'' \<noteq> newline" "CHR ''n'' \<noteq> newline"
  "CHR ''d'' \<noteq> newline" "CHR ''_'' \<noteq> newline" "CHR ''o'' \<noteq> newline" "CHR ''f'' \<noteq> newline"
  "CHR ''r'' \<noteq> newline" "CHR ''c'' \<noteq> newline"
  by (simp_all add: newline_def)

lemma record_lines_single:
  assumes "one_line_names fd"
  shows "list_all single_line (record_lines fd)"
proof -
  from assms have p: "single_line (file_path fd)"
    and ns: "\<And>f. f \<in> set (file_functions fd) \<Longrightarrow> single_line (fn_name f)"
    by (simp_all add: one_line_names_def list_all_iff)
  have fn: "single_line (fn_line_text f)" "single_line (fnda_line_text f)"
    if "f \<in> set (file_functions fd)" for f
    using ns [OF that]
    by (simp_all add: fn_line_text_def fnda_line_text_def single_line_append single_line_Cons
          single_line_Nil single_line_dec_int newline_neq)
  have da: "single_line (da_line_text f)" for f
    by (simp add: da_line_text_def single_line_append single_line_Cons single_line_Nil
          single_line_dec_int newline_neq)
  show ?thesis
    using p fn da
    by (auto simp: record_lines_def list_all_iff single_line_append single_line_Cons
          single_line_Nil single_line_dec_int newline_neq)
qed

lemma lines_of_record:
  assumes "is_file_coverage fd" and "one_line_names fd"
  shows "lines_of (snd (write_file fd [])) = record_lines fd"
  using assms by (simp add: write_file_record lines_of_unlines record_lines_single)

lemma filter_pairs_fst:
  "(\<And>x. P (a x)) \<Longrightarrow> (\<And>x. \<not> P (b x)) \<Longrightarrow> filter P (concat (map (\<lambda>x. [a x, b x]) xs)) = map a xs"
  by (induction xs) simp_all

lemma filter_pairs_snd:
  "(\<And>x. \<not> P (a x)) \<Longrightarrow> (\<And>x. P (b x)) \<Longrightarrow> filter P (concat (map (\<lambda>x. [a x, b x]) xs)) = map b xs"
  by (induction xs) simp_all

lemma filter_pairs_none:
  "(\<And>x. \<not> P (a x)) \<Longrightarrow> (\<And>x. \<not> P (b x)) \<Longrightarrow> filter P (concat (map (\<lambda>x. [a x, b x]) xs)) = []"
  by (induction xs) simp_all

lemma filter_map_none: "(\<And>x. \<not> P (g x)) \<Longrightarrow> filter P (map g xs) = []"
  by (induction xs) simp_all

lemma filter_map_all: "(\<And>x. P (g x)) \<Longrightarrow> filter P (map g xs) = map g xs"
  by (induction xs) simp_all

lemma length_filter_concat_one:
  "(\<And>x. x \<in> set xs \<Longrightarrow> filter P (f x) = [g x]) \<Longrightarrow> filter P (concat (map f xs)) = map g xs"
  by (induction xs) simp_all

lemma FN_lines_of_record:
  "filter (starts_with ''FN:'') (record_lines fd) = map fn_line_text (file_functions fd)"
  by (simp add: record_lines_def filter_pairs_fst filter_map_none starts_with_def
        fn_line_text_def fnda_line_text_def da_line_text_def)

lemma FNDA_lines_of_record:
  "filter (starts_with ''FNDA:'') (record_lines fd) = map fnda_line_text (file_functions fd)"
  by (simp add: record_lines_def filter_pairs_snd filter_map_none starts_with_def
        fn_line_text_def fnda_line_text_def da_line_text_def)

lemma DA_lines_of_record:
  "filter (starts_with ''DA:'') (record_lines fd) = map da_line_text (file_functions fd)"
  by (simp add: record_lines_def filter_pairs_none filter_map_all starts_with_def
        fn_line_text_def fnda_line_text_def da_line_text_def)

lemma SF_lines_of_record:
  "filter (starts_with ''SF:'') (record_lines fd) = [''SF:'' @ file_path fd]"
  by (simp add: record_lines_def filter_pairs_none filter_map_none starts_with_def
        fn_line_text_def fnda_line_text_def da_line_text_def)

lemma end_lines_of_record:
  "filter ((=) ''end_of_record'') (record_lines fd) = [''end_of_record'']"
  by (simp add: record_lines_def filter_pairs_none filter_map_none
        fn_line_text_def fnda_line_text_def da_line_text_def)

section \<open>What the converter does when a required field is absent\<close>

lemma first_absent_append:
  "first_absent (ks @ ks') = (case first_absent ks of Returned _ \<Rightarrow> first_absent ks' | r \<Rightarrow> r)"
  by (cases ks) (simp_all add: first_absent_def)










section \<open>The claims of the specification\<close>

subsection \<open>C1: the scenario of the specification\<close>

text \<open>
  Claim C1. When the input file holds a text that \<^verbatim>\<open>json.load\<close> reads as the report
  of the scenario (one target, the file \<^verbatim>\<open>A.swift\<close> with 10 executable and 7 covered
  lines, the functions \<^verbatim>\<open>f()\<close> at line 3 run twice and \<^verbatim>\<open>g()\<close> at line 8 never
  run), the converter returns normally and the output file holds exactly the thirteen
  lines \<^verbatim>\<open>TN:\<close>, \<^verbatim>\<open>SF:A.swift\<close>, \<^verbatim>\<open>FN:3,f()\<close>, \<^verbatim>\<open>FNDA:2,f()\<close>, \<^verbatim>\<open>FN:8,g()\<close>,
  \<^verbatim>\<open>FNDA:0,g()\<close>, \<^verbatim>\<open>FNF:2\<close>, \<^verbatim>\<open>FNH:1\<close>, \<^verbatim>\<open>DA:3,2\<close>, \<^verbatim>\<open>DA:8,0\<close>, \<^verbatim>\<open>LF:10\<close>,
  \<^verbatim>\<open>LH:7\<close>, \<^verbatim>\<open>end_of_record\<close>, each ended by a newline, in this order, and
  nothing else. No other file changes.
\<close>

theorem scenario_bytes:
  assumes "contents fs json_path = Some src"
    and "json_load src = Some scenario_report"
    and "can_write fs lcov_path"
  shows "convert_xccov_to_lcov json_load fs json_path lcov_path =
      (Returned (), fs\<lparr>contents := (contents fs)(lcov_path \<mapsto>
         unlines [''TN:'', ''SF:A.swift'', ''FN:3,f()'', ''FNDA:2,f()'', ''FN:8,g()'', ''FNDA:0,g()'',
           ''FNF:2'', ''FNH:1'', ''DA:3,2'', ''DA:8,0'', ''LF:10'', ''LH:7'', ''end_of_record''])\<rparr>)"
proof -
  have "write_report scenario_report [] =
      (Returned (), unlines [''TN:'', ''SF:A.swift'', ''FN:3,f()'', ''FNDA:2,f()'', ''FN:8,g()'', ''FNDA:0,g()'',
           ''FNF:2'', ''FNH:1'', ''DA:3,2'', ''DA:8,0'', ''LF:10'', ''LH:7'', ''end_of_record''])"
    by (simp add: scenario_report_def run_defs unlines_def)
  with assms show ?thesis
    by (simp add: convert_xccov_to_lcov_def)
qed

text \<open>The scenario on a file system that holds its JSON text.\<close>

theorem scenario_bytes_witness:
  "contents scenario_fs ''coverage.json'' = Some scenario_text
   \<and> sample_load scenario_text = Some scenario_report
   \<and> can_write scenario_fs ''coverage.lcov''
   \<and> contents (snd (convert_xccov_to_lcov sample_load scenario_fs ''coverage.json'' ''coverage.lcov'')) ''coverage.lcov'' =
       Some ''TN:\<newline>SF:A.swift\<newline>FN:3,f()\<newline>FNDA:2,f()\<newline>FN:8,g()\<newline>FNDA:0,g()\<newline>FNF:2\<newline>FNH:1\<newline>DA:3,2\<newline>DA:8,0\<newline>LF:10\<newline>LH:7\<newline>end_of_record\<newline>''"
proof -
  have r: "contents scenario_fs ''coverage.json'' = Some scenario_text"
    by (simp add: scenario_fs_def)
  have l: "sample_load scenario_text = Some scenario_report"
    by (simp add: sample_load_def)
  have w: "can_write scenario_fs ''coverage.lcov''"
    by (simp add: scenario_fs_def)
  show ?thesis
    using scenario_bytes [where json_load = sample_load and src = scenario_text, OF r l w] r l w by (simp add: unlines_def newline_def)
qed

subsection \<open>C2: one record per file, in target-then-file order\<close>

text \<open>
  Claim C2, for reports whose paths and function names are single lines. The
  conversion of a well-formed report returns normally; its output has as many
  \<^verbatim>\<open>end_of_record\<close> lines as the targets have files in total; its \<^verbatim>\<open>SF:\<close> lines
  are those of the files, walking the targets in input order and the files of each
  target in input order; and the output is the concatenation, in that order, of the
  records of the files.
\<close>

theorem records_in_order:
  assumes "is_report d" and "list_all one_line_names (report_files d)"
  shows "fst (write_report d []) = Returned ()
     \<and> count_list (lines_of (snd (write_report d []))) ''end_of_record'' =
         (\<Sum>t\<leftarrow>report_targets d. length (target_files t))
     \<and> filter (starts_with ''SF:'') (lines_of (snd (write_report d []))) =
         map (\<lambda>fd. ''SF:'' @ file_path fd) (report_files d)
     \<and> snd (write_report d []) = concat (map (\<lambda>fd. snd (write_file fd [])) (report_files d))"
proof -
  let ?files = "report_files d"
  have w: "write_report d [] = (Returned (), unlines (concat (map record_lines ?files)))"
    using assms(1) by (simp add: write_report_text)
  have "list_all single_line (concat (map record_lines ?files))"
    using assms(2) record_lines_single by (auto simp: list_all_iff)
  then have l: "lines_of (snd (write_report d [])) = concat (map record_lines ?files)"
    by (simp add: w lines_of_unlines)
  have "filter ((=) ''end_of_record'') (concat (map record_lines ?files)) = map (\<lambda>fd. ''end_of_record'') ?files"
    by (rule length_filter_concat_one) (rule end_lines_of_record)
  then have "count_list (concat (map record_lines ?files)) ''end_of_record'' = length ?files"
    by (simp add: count_list_eq_length_filter)
  also have "\<dots> = (\<Sum>t\<leftarrow>report_targets d. length (target_files t))"
    by (simp add: report_files_def length_concat comp_def)
  finally have n: "count_list (concat (map record_lines ?files)) ''end_of_record'' =
      (\<Sum>t\<leftarrow>report_targets d. length (target_files t))" .
  have sf: "filter (starts_with ''SF:'') (concat (map record_lines ?files)) =
      map (\<lambda>fd. ''SF:'' @ file_path fd) ?files"
    by (rule length_filter_concat_one) (rule SF_lines_of_record)
  have m: "map (\<lambda>fd. unlines (record_lines fd)) ?files = map (\<lambda>fd. snd (write_file fd [])) ?files"
    using report_files_coverage [OF assms(1)]
    by (intro map_cong refl) (simp add: list_all_iff write_file_record)
  have "snd (write_report d []) = concat (map (\<lambda>fd. unlines (record_lines fd)) ?files)"
    by (simp add: w unlines_concat comp_def)
  also note m
  finally have c: "snd (write_report d []) = concat (map (\<lambda>fd. snd (write_file fd [])) ?files)" .
  have ok: "fst (write_report d []) = Returned ()"
    by (simp add: w)
  from n sf have "count_list (lines_of (snd (write_report d []))) ''end_of_record'' =
      (\<Sum>t\<leftarrow>report_targets d. length (target_files t))"
    and "filter (starts_with ''SF:'') (lines_of (snd (write_report d []))) =
      map (\<lambda>fd. ''SF:'' @ file_path fd) ?files"
    unfolding l by simp_all
  with ok c show ?thesis
    by blast
qed

text \<open>A report of two targets with two files and one file.\<close>

theorem records_in_order_witness:
  "is_report sample_report \<and> list_all one_line_names (report_files sample_report)
   \<and> count_list (lines_of (snd (write_report sample_report []))) ''end_of_record'' = 3
   \<and> filter (starts_with ''SF:'') (lines_of (snd (write_report sample_report []))) =
       [''SF:Sources/App.swift'', ''SF:Sources/Empty.swift'', ''SF:Sources/Odd.swift'']"
proof -
  have wf: "is_report sample_report"
    by (simp add: sample_report_def sample_file_def empty_file_def overcovered_file_def
          is_report_def is_target_def report_defs shape_defs)
  have files: "report_files sample_report = [sample_file, empty_file, overcovered_file]"
    by (simp add: sample_report_def sample_file_def empty_file_def overcovered_file_def
          is_report_def is_target_def report_defs shape_defs)
  have one: "list_all one_line_names (report_files sample_report)"
    unfolding files
    by (simp add: sample_file_def empty_file_def overcovered_file_def one_line_names_def
          single_line_def newline_def report_defs shape_defs)
  have "(\<Sum>t\<leftarrow>report_targets sample_report. length (target_files t)) = 3"
    by (simp add: sample_report_def report_defs shape_defs)
  moreover have "map (\<lambda>fd. ''SF:'' @ file_path fd) (report_files sample_report) =
      [''SF:Sources/App.swift'', ''SF:Sources/Empty.swift'', ''SF:Sources/Odd.swift'']"
    unfolding files
    by (simp add: sample_file_def empty_file_def overcovered_file_def report_defs shape_defs)
  moreover from records_in_order [OF wf one]
  have "count_list (lines_of (snd (write_report sample_report []))) ''end_of_record'' =
      (\<Sum>t\<leftarrow>report_targets sample_report. length (target_files t))"
    and "filter (starts_with ''SF:'') (lines_of (snd (write_report sample_report []))) =
      map (\<lambda>fd. ''SF:'' @ file_path fd) (report_files sample_report)"
    by blast+
  ultimately show ?thesis
    using wf one by simp
qed

text \<open>
  Without the condition on the names the count fails: a report of one target with
  one file, whose path is \<^verbatim>\<open>A.swift\<close>, a newline, \<^verbatim>\<open>end_of_record\<close>, gives an output
  with two \<^verbatim>\<open>end_of_record\<close> lines.
\<close>

theorem records_in_order_counterexample:
  "is_report injected_report
   \<and> length (report_targets injected_report) = 1
   \<and> length (report_files injected_report) = 1
   \<and> count_list (lines_of (snd (write_report injected_report []))) ''end_of_record'' = 2"
  by (simp add: injected_report_def is_report_def is_target_def report_defs shape_defs run_defs lines_of_def newline_def)

subsection \<open>C3: the FN and FNDA lines of a record\<close>

text \<open>
  Claim C3, for a File Coverage whose path and function names are single lines. Its
  record has exactly one \<^verbatim>\<open>FN:\<close> line and one \<^verbatim>\<open>FNDA:\<close> line per function: the
  \<^verbatim>\<open>FN:\<close> lines are, in the order of the function list, the line number and the name
  of each function, and the \<^verbatim>\<open>FNDA:\<close> lines are, in the same order, the execution
  count and the name of each function.
\<close>

theorem fn_lines:
  assumes "is_file_coverage fd" and "one_line_names fd"
  shows "fst (write_file fd []) = Returned ()
     \<and> filter (starts_with ''FN:'') (lines_of (snd (write_file fd []))) =
         map (\<lambda>f. ''FN:'' @ dec_int (fn_line f) @ '','' @ fn_name f) (file_functions fd)
     \<and> filter (starts_with ''FNDA:'') (lines_of (snd (write_file fd []))) =
         map (\<lambda>f. ''FNDA:'' @ dec_int (fn_count f) @ '','' @ fn_name f) (file_functions fd)"
proof -
  have "lines_of (snd (write_file fd [])) = record_lines fd"
    using assms by (rule lines_of_record)
  moreover have "fst (write_file fd []) = Returned ()"
    using assms(1) by (simp add: write_file_record)
  ultimately show ?thesis
    by (simp add: FN_lines_of_record FNDA_lines_of_record fn_line_text_def fnda_line_text_def)
qed

text \<open>A file with two functions.\<close>

theorem fn_lines_witness:
  "is_file_coverage sample_file \<and> one_line_names sample_file
   \<and> filter (starts_with ''FN:'') (lines_of (snd (write_file sample_file []))) =
       [''FN:4,init()'', ''FN:9,body.getter'']
   \<and> filter (starts_with ''FNDA:'') (lines_of (snd (write_file sample_file []))) =
       [''FNDA:3,init()'', ''FNDA:0,body.getter'']"
proof -
  have wf: "is_file_coverage sample_file"
    by (simp add: sample_file_def shape_defs)
  have one: "one_line_names sample_file"
    by (simp add: sample_file_def one_line_names_def single_line_def newline_def shape_defs)
  have "map (\<lambda>f. ''FN:'' @ dec_int (fn_line f) @ '','' @ fn_name f) (file_functions sample_file)
      = [''FN:4,init()'', ''FN:9,body.getter'']"
    by (simp add: sample_file_def shape_defs dec_int_def digit_def)
  moreover have "map (\<lambda>f. ''FNDA:'' @ dec_int (fn_count f) @ '','' @ fn_name f) (file_functions sample_file)
      = [''FNDA:3,init()'', ''FNDA:0,body.getter'']"
    by (simp add: sample_file_def shape_defs dec_int_def digit_def)
  ultimately show ?thesis
    using fn_lines [OF wf one] wf one by simp
qed

text \<open>
  Without the condition on the names the count fails: a file with the single
  function named \<^verbatim>\<open>f()\<close>, a newline, \<^verbatim>\<open>FN:9,g()\<close> has a record with three
  \<^verbatim>\<open>FN:\<close> lines.
\<close>

theorem fn_lines_counterexample:
  "is_file_coverage injected_name_file \<and> length (file_functions injected_name_file) = 1
   \<and> filter (starts_with ''FN:'') (lines_of (snd (write_file injected_name_file []))) =
       [''FN:3,f()'', ''FN:9,g()'', ''FN:9,g()'']"
  by (simp add: injected_name_file_def shape_defs run_defs lines_of_def starts_with_def newline_def)

subsection \<open>C4: the function summary\<close>

text \<open>
  Claim C4. The record of a File Coverage is the \<^verbatim>\<open>TN:\<close>, \<^verbatim>\<open>SF:\<close>, \<^verbatim>\<open>FN:\<close> and
  \<^verbatim>\<open>FNDA:\<close> lines, then \<^verbatim>\<open>FNF:\<close> with the number of entries of the function list,
  then \<^verbatim>\<open>FNH:\<close> with the number of entries whose execution count is greater than 0,
  then the \<^verbatim>\<open>DA:\<close> lines and the line summary. An entry with execution count 0 is
  counted by \<^verbatim>\<open>FNF:\<close> and not by \<^verbatim>\<open>FNH:\<close>.
\<close>

theorem function_summary:
  assumes "is_file_coverage fd"
  shows "write_file fd out = (Returned (), out
     @ unlines ([''TN:'', ''SF:'' @ file_path fd]
         @ concat (map (\<lambda>f. [fn_line_text f, fnda_line_text f]) (file_functions fd)))
     @ ''FNF:'' @ dec_int (int (length (file_functions fd))) @ [newline]
     @ ''FNH:'' @ dec_int (int (length (filter (\<lambda>f. 0 < fn_count f) (file_functions fd)))) @ [newline]
     @ unlines (map da_line_text (file_functions fd)
         @ [''LF:'' @ dec_int (file_executable fd), ''LH:'' @ dec_int (file_covered fd), ''end_of_record'']))"
  using assms
  by (simp add: write_file_record record_lines_def hit_functions_def unlines_append unlines_Cons unlines_Nil)

text \<open>A file with two functions, one of them never run.\<close>

theorem function_summary_witness:
  "is_file_coverage sample_file
   \<and> length (file_functions sample_file) = 2
   \<and> length (filter (\<lambda>f. 0 < fn_count f) (file_functions sample_file)) = 1
   \<and> snd (write_file sample_file []) =
       ''TN:\<newline>SF:Sources/App.swift\<newline>FN:4,init()\<newline>FNDA:3,init()\<newline>FN:9,body.getter\<newline>FNDA:0,body.getter\<newline>FNF:2\<newline>FNH:1\<newline>DA:4,3\<newline>DA:9,0\<newline>LF:10\<newline>LH:6\<newline>end_of_record\<newline>''"
proof -
  have wf: "is_file_coverage sample_file"
    by (simp add: sample_file_def shape_defs)
  have fs: "file_functions sample_file =
     [JObj [(''name'', JStr ''init()''), (''lineNumber'', JInt 4), (''executionCount'', JInt 3)],
      JObj [(''name'', JStr ''body.getter''), (''lineNumber'', JInt 9), (''executionCount'', JInt 0)]]"
    and "file_path sample_file = ''Sources/App.swift''"
    and "file_executable sample_file = 10" and "file_covered sample_file = 6"
    by (simp_all add: sample_file_def shape_defs)
  then show ?thesis
    using function_summary [OF wf, of "[]"] wf
    by (simp add: shape_defs fn_line_text_def fnda_line_text_def da_line_text_def
          unlines_def dec_int_def digit_def newline_def)
qed

subsection \<open>C5: the line summary\<close>

text \<open>
  Claim C5. The record of a File Coverage ends with \<^verbatim>\<open>LF:\<close> and the file's
  \<^verbatim>\<open>executableLines\<close>, \<^verbatim>\<open>LH:\<close> and the file's \<^verbatim>\<open>coveredLines\<close>, and
  \<^verbatim>\<open>end_of_record\<close>. The two numbers are those of the input, whatever the functions
  and their execution counts are, and whatever the order between the two: nothing
  is required of them, and the conversion returns normally.
\<close>

theorem line_summary:
  assumes "is_file_coverage fd"
  shows "write_file fd out = (Returned (), out @ unlines (function_section fd)
     @ ''LF:'' @ dec_int (file_executable fd) @ [newline]
     @ ''LH:'' @ dec_int (file_covered fd) @ [newline]
     @ ''end_of_record'' @ [newline])"
  using assms
  by (simp add: write_file_record record_lines_def function_section_def unlines_append unlines_Cons unlines_Nil)

text \<open>A file with more covered lines (12) than executable lines (10).\<close>

theorem line_summary_witness:
  "is_file_coverage overcovered_file
   \<and> file_executable overcovered_file = 10 \<and> file_covered overcovered_file = 12
   \<and> write_file overcovered_file [] = (Returned (),
       ''TN:\<newline>SF:Sources/Odd.swift\<newline>FN:2,run()\<newline>FNDA:0,run()\<newline>FNF:1\<newline>FNH:0\<newline>DA:2,0\<newline>LF:10\<newline>LH:12\<newline>end_of_record\<newline>'')"
proof -
  have wf: "is_file_coverage overcovered_file"
    by (simp add: overcovered_file_def shape_defs)
  have "file_functions overcovered_file =
     [JObj [(''name'', JStr ''run()''), (''lineNumber'', JInt 2), (''executionCount'', JInt 0)]]"
    and "file_path overcovered_file = ''Sources/Odd.swift''"
    and "file_executable overcovered_file = 10" and "file_covered overcovered_file = 12"
    by (simp_all add: overcovered_file_def shape_defs)
  then show ?thesis
    using line_summary [OF wf, of "[]"] wf
    by (simp add: function_section_def hit_functions_def shape_defs fn_line_text_def fnda_line_text_def
          da_line_text_def unlines_def dec_int_def digit_def newline_def)
qed

subsection \<open>C6: the DA lines of a record\<close>

text \<open>
  Claim C6, for a File Coverage whose path and function names are single lines. Its
  record has exactly one \<^verbatim>\<open>DA:\<close> line per function, in the order of the function
  list, made of the line number and the execution count of the function; nothing
  else of the input enters a \<^verbatim>\<open>DA:\<close> line.
\<close>

theorem da_lines:
  assumes "is_file_coverage fd" and "one_line_names fd"
  shows "fst (write_file fd []) = Returned ()
     \<and> filter (starts_with ''DA:'') (lines_of (snd (write_file fd []))) =
         map (\<lambda>f. ''DA:'' @ dec_int (fn_line f) @ '','' @ dec_int (fn_count f)) (file_functions fd)"
proof -
  have "lines_of (snd (write_file fd [])) = record_lines fd"
    using assms by (rule lines_of_record)
  moreover have "fst (write_file fd []) = Returned ()"
    using assms(1) by (simp add: write_file_record)
  ultimately show ?thesis
    by (simp add: DA_lines_of_record da_line_text_def)
qed

text \<open>A file with two functions.\<close>

theorem da_lines_witness:
  "is_file_coverage sample_file \<and> one_line_names sample_file
   \<and> filter (starts_with ''DA:'') (lines_of (snd (write_file sample_file []))) = [''DA:4,3'', ''DA:9,0'']"
proof -
  have wf: "is_file_coverage sample_file"
    by (simp add: sample_file_def shape_defs)
  have one: "one_line_names sample_file"
    by (simp add: sample_file_def one_line_names_def single_line_def newline_def shape_defs)
  have "map (\<lambda>f. ''DA:'' @ dec_int (fn_line f) @ '','' @ dec_int (fn_count f)) (file_functions sample_file)
      = [''DA:4,3'', ''DA:9,0'']"
    by (simp add: sample_file_def shape_defs dec_int_def digit_def)
  then show ?thesis
    using da_lines [OF wf one] wf one by simp
qed

text \<open>
  Without the condition on the names the count fails: a file with one function, whose
  path is \<^verbatim>\<open>A.swift\<close>, a newline, \<^verbatim>\<open>DA:1,1\<close>, has a record with two \<^verbatim>\<open>DA:\<close>
  lines.
\<close>

theorem da_lines_counterexample:
  "is_file_coverage injected_da_file \<and> length (file_functions injected_da_file) = 1
   \<and> filter (starts_with ''DA:'') (lines_of (snd (write_file injected_da_file []))) =
       [''DA:1,1'', ''DA:3,2'']"
  by (simp add: injected_da_file_def shape_defs run_defs lines_of_def starts_with_def newline_def)

subsection \<open>C7: a file without functions\<close>

text \<open>
  Claim C7, for a File Coverage whose path is a single line. When its function list
  is empty, its record is the seven lines \<^verbatim>\<open>TN:\<close>, \<^verbatim>\<open>SF:\<close> with the path,
  \<^verbatim>\<open>FNF:0\<close>, \<^verbatim>\<open>FNH:0\<close>, \<^verbatim>\<open>LF:\<close> and \<^verbatim>\<open>LH:\<close> with the file's totals, and
  \<^verbatim>\<open>end_of_record\<close>; it has no \<^verbatim>\<open>FN:\<close>, \<^verbatim>\<open>FNDA:\<close> or \<^verbatim>\<open>DA:\<close> line.
\<close>

theorem no_functions:
  assumes "is_file_coverage fd" and "file_functions fd = []" and "single_line (file_path fd)"
  shows "fst (write_file fd []) = Returned ()
     \<and> lines_of (snd (write_file fd [])) =
         [''TN:'', ''SF:'' @ file_path fd, ''FNF:0'', ''FNH:0'',
          ''LF:'' @ dec_int (file_executable fd), ''LH:'' @ dec_int (file_covered fd), ''end_of_record'']
     \<and> filter (starts_with ''FN:'') (lines_of (snd (write_file fd []))) = []
     \<and> filter (starts_with ''FNDA:'') (lines_of (snd (write_file fd []))) = []
     \<and> filter (starts_with ''DA:'') (lines_of (snd (write_file fd []))) = []"
proof -
  from assms have "one_line_names fd"
    by (simp add: one_line_names_def)
  with assms(1) have l: "lines_of (snd (write_file fd [])) = record_lines fd"
    by (rule lines_of_record)
  have r: "record_lines fd = [''TN:'', ''SF:'' @ file_path fd, ''FNF:0'', ''FNH:0'',
          ''LF:'' @ dec_int (file_executable fd), ''LH:'' @ dec_int (file_covered fd), ''end_of_record'']"
    using assms(2) by (simp add: record_lines_def hit_functions_def dec_int_def digit_def)
  have "fst (write_file fd []) = Returned ()"
    using assms(1) by (simp add: write_file_record)
  moreover have "filter (starts_with ''FN:'') (record_lines fd) = []"
    "filter (starts_with ''FNDA:'') (record_lines fd) = []"
    "filter (starts_with ''DA:'') (record_lines fd) = []"
    using assms(2) by (simp_all add: FN_lines_of_record FNDA_lines_of_record DA_lines_of_record)
  ultimately show ?thesis
    unfolding l using r by simp
qed

text \<open>A file with an empty function list.\<close>

theorem no_functions_witness:
  "is_file_coverage empty_file \<and> file_functions empty_file = [] \<and> single_line (file_path empty_file)
   \<and> lines_of (snd (write_file empty_file [])) =
       [''TN:'', ''SF:Sources/Empty.swift'', ''FNF:0'', ''FNH:0'', ''LF:5'', ''LH:0'', ''end_of_record'']"
proof -
  have wf: "is_file_coverage empty_file"
    by (simp add: empty_file_def shape_defs)
  have none: "file_functions empty_file = []"
    by (simp add: empty_file_def shape_defs)
  have one: "single_line (file_path empty_file)"
    by (simp add: empty_file_def single_line_def newline_def shape_defs)
  have "file_path empty_file = ''Sources/Empty.swift''"
    "dec_int (file_executable empty_file) = ''5''" "dec_int (file_covered empty_file) = ''0''"
    by (simp_all add: empty_file_def shape_defs dec_int_def digit_def)
  then show ?thesis
    using no_functions [OF wf none one] wf none one by simp
qed

text \<open>
  Without the condition on the path the claim fails: a file with an empty function
  list, whose path is \<^verbatim>\<open>A.swift\<close>, a newline, \<^verbatim>\<open>FN:1,f()\<close>, has a record with
  an \<^verbatim>\<open>FN:\<close> line.
\<close>

theorem no_functions_counterexample:
  "is_file_coverage injected_fn_file \<and> file_functions injected_fn_file = []
   \<and> filter (starts_with ''FN:'') (lines_of (snd (write_file injected_fn_file []))) = [''FN:1,f()'']"
  by (simp add: injected_fn_file_def shape_defs run_defs lines_of_def starts_with_def newline_def)

subsection \<open>C8: the output is a function of the input\<close>



subsection \<open>C9: an absent required field\<close>



subsection \<open>C10: input errors come before any output\<close>

text \<open>
  Claim C10. When the input file cannot be read, or its text is not JSON, the
  conversion raises and the file system is as before: the output file is neither
  created nor emptied nor written.
\<close>

theorem input_failure_before_output:
  "(contents fs json_path = None \<longrightarrow>
      convert_xccov_to_lcov json_load fs json_path lcov_path = (Raised OSError, fs))
   \<and> (contents fs json_path = Some src \<and> json_load src = None \<longrightarrow>
      convert_xccov_to_lcov json_load fs json_path lcov_path = (Raised JSONDecodeError, fs))"
  by (simp add: convert_xccov_to_lcov_def)

text \<open>
  A file system without the input file, and one whose input is not JSON: the old
  output file stays.
\<close>

theorem input_failure_before_output_witness:
  "contents garbled_fs ''missing.json'' = None
   \<and> convert_xccov_to_lcov sample_load garbled_fs ''missing.json'' ''coverage.lcov'' = (Raised OSError, garbled_fs)
   \<and> contents garbled_fs ''coverage.json'' = Some ''{targets:''
   \<and> sample_load ''{targets:'' = None
   \<and> convert_xccov_to_lcov sample_load garbled_fs ''coverage.json'' ''coverage.lcov'' = (Raised JSONDecodeError, garbled_fs)
   \<and> contents garbled_fs ''coverage.lcov'' = Some ''stale''"
proof -
  have m: "contents garbled_fs ''missing.json'' = None"
    and r: "contents garbled_fs ''coverage.json'' = Some ''{targets:''"
    and o: "contents garbled_fs ''coverage.lcov'' = Some ''stale''"
    by (simp_all add: garbled_fs_def)
  have l: "sample_load ''{targets:'' = None"
    by (simp add: sample_load_def scenario_text_def incomplete_text_def)
  from input_failure_before_output [of garbled_fs "''missing.json''" sample_load "''coverage.lcov''" "[]"]
    input_failure_before_output [of garbled_fs "''coverage.json''" sample_load "''coverage.lcov''" "''{targets:''"]
    m r o l
  show ?thesis
    by simp
qed

end
